theory Spec2Isabelle
  imports Complex_Main
begin

section \<open>The persistence service as explicit state\<close>

text \<open>
  The rules of the reading application (points, levels, streaks, achievements, the
  assignment states and the recording life cycle) are asynchronous TypeScript functions
  that query and update tables of a hosted relational store.  Each table is a list of rows,
  each function takes the store and returns its outcome together with the store it leaves
  behind (writes made before an exception stay), and a thrown exception is the left summand
  of the outcome.  Columns that no rule reads (names,
  \<open>created_at\<close>/\<open>updated_at\<close> stamps apart from the one the weekly count filters on) are
  left out of the rows.

  Numbers are the integers the columns hold; a nullable numeric column is an
  \<open>int option\<close> and JavaScript's \<open>x || d\<close> on it is \<open>orElse\<close>: the default is taken
  for \<open>null\<close> and for \<open>0\<close>.
\<close>

type_synonym ident = string

definition orElse :: "int option \<Rightarrow> int \<Rightarrow> int" where
  "orElse x d = (case x of None \<Rightarrow> d | Some v \<Rightarrow> if v = 0 then d else v)"

text \<open>\<open>.single()\<close> of the query builder: the row when exactly one row matches, an error
  (no data) otherwise.\<close>

definition single_row :: "'a list \<Rightarrow> 'a option" where
  "single_row rows = (case rows of [r] \<Rightarrow> Some r | _ \<Rightarrow> None)"

record profile =
  p_id :: ident
  p_user_id :: ident
  p_points :: "int option"
  p_diamonds :: "int option"
  p_current_streak :: "int option"
  p_longest_streak :: "int option"
  p_level :: "int option"
  p_last_activity :: "string option"

record streak_row =
  sr_id :: ident
  sr_student_id :: ident
  sr_streak_date :: string
  sr_recordings_count :: int
  sr_points_earned :: int

datatype requirement = TotalRecordings | Streak | Points | PerfectWeek | OtherRequirement

record achievement =
  a_id :: ident
  a_requirement_type :: requirement
  a_requirement_value :: int
  a_points_reward :: int
  a_diamonds_reward :: int

record user_achievement =
  ua_user_id :: ident
  ua_achievement_id :: ident

record audio_record =
  ar_id :: ident
  ar_user_id :: ident
  ar_title :: string
  ar_description :: "string option"
  ar_file_path :: string
  ar_file_size :: "int option"
  ar_duration :: "real option"
  ar_points_earned :: int
  ar_created_at :: nat
  ar_assignment_id :: "ident option"
  ar_parent_rating :: "int option"
  ar_parent_feedback :: "string option"
  ar_reading_quality :: "string option"

datatype status = Pending | Completed | Reviewed

record assignment =
  ra_id :: ident
  ra_student_id :: ident
  ra_status :: status

record db =
  profiles :: "profile list"
  reading_streaks :: "streak_row list"
  achievements :: "achievement list"
  user_achievements :: "user_achievement list"
  audio_records :: "audio_record list"
  reading_assignments :: "assignment list"
  audio_files :: "string list"

text \<open>
  What a call reads from outside the store: the signed-in user of \<open>supabase.auth.getUser()\<close>,
  the clock, the keys the store gives to inserted rows, the size of the captured file and,
  for every call whose error the source tests, whether that call fails.  A write whose
  result the source does not look at is taken to go through; a \<open>.single()\<close> read fails
  exactly when the rows in the store are not one.
\<close>

record env =
  auth_user :: "ident option"
  today :: string
  week_start :: nat
  now :: nat
  timestamp :: string
  new_profile_id :: ident
  new_streak_id :: ident
  new_record_id :: ident
  create_profile_fails :: bool
  update_points_fails :: bool
  insert_streak_fails :: bool
  achievements_query_fails :: bool
  upload_fails :: bool
  insert_record_fails :: bool
  records_query_fails :: bool
  storage_remove_fails :: bool
  db_delete_fails :: bool
  stop_async_fails :: bool
  unload_async_fails :: bool
  file_ok :: bool
  blob_size :: nat

datatype error =
    NotAuthenticated
  | QueryError
  | UploadError
  | InsertError
  | DeleteError
  | UpdateError
  | FileNotAccessible
  | EmptyRecording
  | ReferenceError

section \<open>Progress calculator\<close>

record progress =
  points :: int
  diamonds :: int
  currentStreak :: int
  longestStreak :: int
  level :: int
  totalRecordings :: int
  thisWeekRecordings :: int
  nextLevelPoints :: int

definition default_progress :: progress where
  "default_progress =
     \<lparr>points = 0, diamonds = 0, currentStreak = 0, longestStreak = 0, level = 1,
      totalRecordings = 0, thisWeekRecordings = 0, nextLevelPoints = 100\<rparr>"

text \<open>The tail both branches of \<open>getStudentProgress\<close> share: the two count queries and the
  points still missing for the next level.\<close>

definition progress_of :: "env \<Rightarrow> ident \<Rightarrow> profile \<Rightarrow> db \<Rightarrow> progress" where
  "progress_of e uid profileData s =
     (let total = int (length (filter (\<lambda>r. ar_user_id r = uid) (audio_records s)));
          thisWeek = int (length (filter (\<lambda>r. ar_user_id r = uid \<and> week_start e \<le> ar_created_at r)
                                    (audio_records s)));
          currentLevel = orElse (p_level profileData) 1;
          nextLevel = currentLevel * 100;
          pointsToNext = nextLevel - orElse (p_points profileData) 0
      in \<lparr>points = orElse (p_points profileData) 0,
          diamonds = orElse (p_diamonds profileData) 0,
          currentStreak = orElse (p_current_streak profileData) 0,
          longestStreak = orElse (p_longest_streak profileData) 0,
          level = orElse (p_level profileData) 1,
          totalRecordings = total,
          thisWeekRecordings = thisWeek,
          nextLevelPoints = max 0 pointsToNext\<rparr>)"

definition getStudentProgress :: "env \<Rightarrow> db \<Rightarrow> (error + progress) \<times> db" where
  "getStudentProgress e s =
     (case auth_user e of
        None \<Rightarrow> (Inl NotAuthenticated, s)
      | Some uid \<Rightarrow>
          (case single_row (filter (\<lambda>p. p_user_id p = uid) (profiles s)) of
             None \<Rightarrow>
               if create_profile_fails e then (Inr default_progress, s)
               else
                 let newProfile =
                       \<lparr>p_id = new_profile_id e, p_user_id = uid, p_points = Some 0,
                        p_diamonds = Some 0, p_current_streak = Some 0,
                        p_longest_streak = Some 0, p_level = Some 1,
                        p_last_activity = None\<rparr>;
                     s' = s\<lparr>profiles := profiles s @ [newProfile]\<rparr>
                 in (Inr (progress_of e uid newProfile s'), s')
           | Some profile \<Rightarrow> (Inr (progress_of e uid profile s), s)))"

section \<open>Achievement evaluator\<close>

definition earned :: "progress \<Rightarrow> achievement \<Rightarrow> bool" where
  "earned stats a =
     (case a_requirement_type a of
        TotalRecordings \<Rightarrow> a_requirement_value a \<le> totalRecordings stats
      | Streak \<Rightarrow> a_requirement_value a \<le> currentStreak stats
      | Points \<Rightarrow> a_requirement_value a \<le> points stats
      | PerfectWeek \<Rightarrow> False
      | OtherRequirement \<Rightarrow> False)"

text \<open>The body of the loop for an earned achievement: the row is inserted, then the reward
  is added to the profile rows whose \<open>id\<close> column equals the user's id.\<close>

definition award_achievement :: "ident \<Rightarrow> achievement \<Rightarrow> db \<Rightarrow> db" where
  "award_achievement uid a s =
     (let s1 = s\<lparr>user_achievements :=
                   user_achievements s @ [\<lparr>ua_user_id = uid, ua_achievement_id = a_id a\<rparr>]\<rparr>
      in if 0 < a_points_reward a \<or> 0 < a_diamonds_reward a then
           let profile = single_row (filter (\<lambda>p. p_id p = uid) (profiles s1));
               newPts = (case profile of None \<Rightarrow> 0 | Some p \<Rightarrow> orElse (p_points p) 0)
                          + a_points_reward a;
               newDia = (case profile of None \<Rightarrow> 0 | Some p \<Rightarrow> orElse (p_diamonds p) 0)
                          + a_diamonds_reward a
           in s1\<lparr>profiles :=
                   map (\<lambda>p. if p_id p = uid
                             then p\<lparr>p_points := Some newPts, p_diamonds := Some newDia\<rparr>
                             else p) (profiles s1)\<rparr>
         else s1)"

fun award_loop :: "ident \<Rightarrow> progress \<Rightarrow> achievement list \<Rightarrow> achievement list \<times> db
                     \<Rightarrow> achievement list \<times> db" where
  "award_loop uid stats [] (newAchievements, s) = (newAchievements, s)"
| "award_loop uid stats (a # rest) (newAchievements, s) =
     (if earned stats a
      then award_loop uid stats rest (newAchievements @ [a], award_achievement uid a s)
      else award_loop uid stats rest (newAchievements, s))"

text \<open>
  The catalogue query is \<open>.not('id', 'in', `(SELECT achievement_id FROM user_achievements
  WHERE user_id = '...')`)\<close>.  The query builder puts the third argument into the request
  as it is, and the store reads what stands between the parentheses of \<open>in.(...)\<close> as a
  list of literal values, not as SQL: the list has one element, the text of the
  sub-select (the user id, a uuid, holds no comma that would split it).  On the text ids
  of this model the query therefore returns every achievement whose id is not that text,
  earned or not; on an id column the text cannot be cast to, the query fails, which is
  \<open>achievements_query_fails\<close>.
\<close>

definition subquery_text :: "ident \<Rightarrow> string" where
  "subquery_text uid =
     [CHR 0x0A] @ ''          SELECT achievement_id '' @
     [CHR 0x0A] @ ''          FROM user_achievements '' @
     [CHR 0x0A] @ ''          WHERE user_id = '' @ [CHR 0x27] @ uid @ [CHR 0x27] @
     [CHR 0x0A] @ ''        ''"

definition availableAchievements :: "ident \<Rightarrow> db \<Rightarrow> achievement list" where
  "availableAchievements uid s =
     filter (\<lambda>a. a_id a \<notin> set [subquery_text uid]) (achievements s)"

definition checkAndAwardAchievements :: "env \<Rightarrow> db \<Rightarrow> (error + achievement list) \<times> db" where
  "checkAndAwardAchievements e s =
     (case auth_user e of
        None \<Rightarrow> (Inl NotAuthenticated, s)
      | Some uid \<Rightarrow>
          (case getStudentProgress e s of
             (Inl err, s1) \<Rightarrow> (Inl err, s1)
           | (Inr stats, s1) \<Rightarrow>
               if achievements_query_fails e then (Inl QueryError, s1)
               else (case award_loop uid stats (availableAchievements uid s1) ([], s1) of
                       (newAchievements, s2) \<Rightarrow> (Inr newAchievements, s2))))"

section \<open>Awarding points\<close>

record award_result =
  newPoints :: int
  newLevel :: int

definition awardPoints :: "env \<Rightarrow> int \<Rightarrow> db \<Rightarrow> (error + award_result) \<times> db" where
  "awardPoints e delta s =
     (case auth_user e of
        None \<Rightarrow> (Inl NotAuthenticated, s)
      | Some uid \<Rightarrow>
          (case single_row (filter (\<lambda>p. p_user_id p = uid) (profiles s)) of
             None \<Rightarrow> (Inr \<lparr>newPoints = delta, newLevel = 1\<rparr>, s)
           | Some profile \<Rightarrow>
               let np = orElse (p_points profile) 0 + delta;
                   nl = np div 100 + 1
               in if update_points_fails e then (Inr \<lparr>newPoints = np, newLevel = nl\<rparr>, s)
                  else
                    let s1 = s\<lparr>profiles :=
                                 map (\<lambda>p. if p_user_id p = uid
                                           then p\<lparr>p_points := Some np, p_level := Some nl\<rparr>
                                           else p) (profiles s)\<rparr>
                    in (case checkAndAwardAchievements e s1 of
                          (Inl err, s2) \<Rightarrow> (Inl err, s2)
                        | (Inr _, s2) \<Rightarrow> (Inr \<lparr>newPoints = np, newLevel = nl\<rparr>, s2))))"

text \<open>The calculator as the specification words it: new points are the old points plus the
  delta, the new level is one more than the hundreds in the new points.\<close>

definition spec_calculator :: "int \<Rightarrow> int \<Rightarrow> award_result" where
  "spec_calculator P d = \<lparr>newPoints = P + d, newLevel = (P + d) div 100 + 1\<rparr>"

section \<open>Streak tracker\<close>

definition updateStreak :: "env \<Rightarrow> db \<Rightarrow> (error + unit) \<times> db" where
  "updateStreak e s =
     (case auth_user e of
        None \<Rightarrow> (Inl NotAuthenticated, s)
      | Some uid \<Rightarrow>
          (case single_row (filter (\<lambda>r. sr_student_id r = uid \<and> sr_streak_date r = today e)
                                   (reading_streaks s)) of
             Some existingStreak \<Rightarrow>
               (Inr (),
                s\<lparr>reading_streaks :=
                     map (\<lambda>r. if sr_id r = sr_id existingStreak
                               then r\<lparr>sr_recordings_count := sr_recordings_count existingStreak + 1,
                                      sr_points_earned := sr_points_earned existingStreak + 10\<rparr>
                               else r) (reading_streaks s)\<rparr>)
           | None \<Rightarrow>
               if insert_streak_fails e then (Inr (), s)
               else
                 let s1 = s\<lparr>reading_streaks :=
                              reading_streaks s @
                                [\<lparr>sr_id = new_streak_id e, sr_student_id = uid,
                                  sr_streak_date = today e, sr_recordings_count = 1,
                                  sr_points_earned = 10\<rparr>]\<rparr>
                 in (case single_row (filter (\<lambda>p. p_user_id p = uid) (profiles s1)) of
                       None \<Rightarrow> (Inr (), s1)
                     | Some profile \<Rightarrow>
                         let newCurrentStreak = orElse (p_current_streak profile) 0 + 1;
                             newLongestStreak = max (orElse (p_longest_streak profile) 0)
                                                    newCurrentStreak
                         in (Inr (),
                             s1\<lparr>profiles :=
                                  map (\<lambda>p. if p_user_id p = uid
                                            then p\<lparr>p_current_streak := Some newCurrentStreak,
                                                   p_longest_streak := Some newLongestStreak,
                                                   p_last_activity := Some (today e)\<rparr>
                                            else p) (profiles s1)\<rparr>))))"

section \<open>Assignment life cycle\<close>

text \<open>Both functions update the rows whose id is the given one, whatever their status, and
  throw when \<open>.select().single()\<close> does not get exactly one updated row back.  An optional
  argument of \<open>reviewAssignment\<close> that is left out is \<open>undefined\<close>, which the request
  body drops: the column keeps its value.\<close>

definition set_status :: "ident \<Rightarrow> status \<Rightarrow> db \<Rightarrow> db" where
  "set_status assignmentId st s =
     s\<lparr>reading_assignments :=
         map (\<lambda>a. if ra_id a = assignmentId then a\<lparr>ra_status := st\<rparr> else a)
             (reading_assignments s)\<rparr>"

definition completeAssignment :: "ident \<Rightarrow> ident \<Rightarrow> db \<Rightarrow> (error + assignment) \<times> db" where
  "completeAssignment assignmentId recordingId s =
     (let s1 = set_status assignmentId Completed s
      in case single_row (filter (\<lambda>a. ra_id a = assignmentId) (reading_assignments s1)) of
           None \<Rightarrow> (Inl UpdateError, s1)
         | Some data \<Rightarrow>
             (Inr data,
              s1\<lparr>audio_records :=
                   map (\<lambda>r. if ar_id r = recordingId
                             then r\<lparr>ar_assignment_id := Some assignmentId\<rparr> else r)
                       (audio_records s1)\<rparr>))"

definition reviewAssignment ::
  "ident \<Rightarrow> int \<Rightarrow> string option \<Rightarrow> string option \<Rightarrow> db \<Rightarrow> (error + assignment) \<times> db" where
  "reviewAssignment assignmentId rating feedback quality s =
     (let s1 = set_status assignmentId Reviewed s
      in case single_row (filter (\<lambda>a. ra_id a = assignmentId) (reading_assignments s1)) of
           None \<Rightarrow> (Inl UpdateError, s1)
         | Some data \<Rightarrow>
             (case single_row (filter (\<lambda>r. ar_assignment_id r = Some assignmentId)
                                      (audio_records s1)) of
                None \<Rightarrow> (Inr data, s1)
              | Some recording \<Rightarrow>
                  (Inr data,
                   s1\<lparr>audio_records :=
                        map (\<lambda>r. if ar_id r = ar_id recording
                                  then r\<lparr>ar_parent_rating := Some rating,
                                         ar_parent_feedback :=
                                           (case feedback of
                                              None \<Rightarrow> ar_parent_feedback r
                                            | Some f \<Rightarrow> Some f),
                                         ar_reading_quality :=
                                           (case quality of
                                              None \<Rightarrow> ar_reading_quality r
                                            | Some q \<Rightarrow> Some q)\<rparr>
                                  else r) (audio_records s1)\<rparr>)))"

section \<open>Recorder: validating and saving a recording\<close>

text \<open>What the two screens do that a user or a test can observe, in the order it happens:
  calls on the player, on the object store and on the table of recordings, alerts, and
  the \<open>onRecordingSaved\<close> callback.  \<open>SavedAlert total base bonus n\<close> is the success
  alert of the recorder with the numbers it prints.  The \<open>console.error\<close> lines are
  recorded on the deletion path only.\<close>

datatype event =
    StopAsync
  | UnloadAsync
  | StorageRemove string
  | DbDelete ident
  | Alert string string
  | SavedAlert int int int nat
  | OnRecordingSaved
  | ConsoleError string

record recorder =
  r_title :: string
  r_description :: string
  r_isRecording :: bool
  r_isPaused :: bool
  r_duration :: real
  r_uri :: "string option"
  r_isSaving :: bool
  r_titleError :: string

text \<open>\<open>String.prototype.trim\<close> strips white space and line terminators.  Of these the
  8-bit characters of \<open>string\<close> hold tab, line feed, vertical tab, form feed, carriage
  return, space and the no-break space U+00A0; the remaining Unicode spaces have no
  character in this type.\<close>

definition is_space :: "char \<Rightarrow> bool" where
  "is_space c =
     (c \<in> set [CHR 0x09, CHR 0x0A, CHR 0x0B, CHR 0x0C, CHR 0x0D, CHR 0x20, CHR 0xA0])"

definition trim :: "string \<Rightarrow> string" where
  "trim str = rev (dropWhile is_space (rev (dropWhile is_space str)))"

definition discardRecording :: "recorder \<Rightarrow> recorder" where
  "discardRecording r =
     r\<lparr>r_isRecording := False, r_isPaused := False, r_duration := 0, r_uri := None,
       r_title := [], r_description := [], r_titleError := []\<rparr>"

definition basePoints :: int where
  "basePoints = 10"

definition durationMinutes :: "real \<Rightarrow> int" where
  "durationMinutes d = \<lceil>d / 60\<rceil>"

definition durationBonus :: "real \<Rightarrow> int" where
  "durationBonus d = min (durationMinutes d * 2) 20"

definition totalPoints :: "real \<Rightarrow> int" where
  "totalPoints d = basePoints + durationBonus d"

record create_data =
  cd_title :: string
  cd_description :: "string option"
  cd_file_path :: string
  cd_file_size :: int
  cd_duration :: real
  cd_points_earned :: int

text \<open>\<open>uploadAudioFile\<close> reads the local file and puts it under \<open>user/fileName\<close>; every way
  it can fail after the user is known (unreadable or empty file, storage error) is the one
  flag \<open>upload_fails\<close>.\<close>

definition uploadAudioFile :: "env \<Rightarrow> string \<Rightarrow> string \<Rightarrow> db \<Rightarrow> (error + string) \<times> db" where
  "uploadAudioFile e uri fileName s =
     (case auth_user e of
        None \<Rightarrow> (Inl NotAuthenticated, s)
      | Some uid \<Rightarrow>
          if upload_fails e then (Inl UploadError, s)
          else let filePath = uid @ ''/'' @ fileName
               in (Inr filePath, s\<lparr>audio_files := audio_files s @ [filePath]\<rparr>))"

definition saveAudioRecord :: "env \<Rightarrow> create_data \<Rightarrow> db \<Rightarrow> (error + audio_record) \<times> db" where
  "saveAudioRecord e data s =
     (case auth_user e of
        None \<Rightarrow> (Inl NotAuthenticated, s)
      | Some uid \<Rightarrow>
          if insert_record_fails e then (Inl InsertError, s)
          else
            let record =
                  \<lparr>ar_id = new_record_id e, ar_user_id = uid, ar_title = cd_title data,
                   ar_description = (if cd_description data = Some [] then None
                                     else cd_description data),
                   ar_file_path = cd_file_path data,
                   ar_file_size = (if cd_file_size data = 0 then None
                                   else Some (cd_file_size data)),
                   ar_duration = (if cd_duration data = 0 then None
                                  else Some (cd_duration data)),
                   ar_points_earned = cd_points_earned data, ar_created_at = now e,
                   ar_assignment_id = None, ar_parent_rating = None,
                   ar_parent_feedback = None, ar_reading_quality = None\<rparr>
            in (Inr record, s\<lparr>audio_records := audio_records s @ [record]\<rparr>))"

definition getUserAudioRecords :: "env \<Rightarrow> db \<Rightarrow> error + audio_record list" where
  "getUserAudioRecords e s =
     (if records_query_fails e then Inl QueryError
      else Inr (rev (sort_key ar_created_at (audio_records s))))"

text \<open>The \<open>try\<close> block of \<open>validateAndSave\<close>: \<open>Some err\<close> is the exception that leaves it.\<close>

definition save_try ::
  "env \<Rightarrow> recorder \<Rightarrow> string \<Rightarrow> db \<Rightarrow> event list \<Rightarrow> error option \<times> recorder \<times> db \<times> event list" where
  "save_try e r uri s ev =
     (if \<not> file_ok e then (Some FileNotAccessible, r, s, ev)
      else if blob_size e = 0 then (Some EmptyRecording, r, s, ev)
      else
        let fileName = ''recording-'' @ timestamp e @ ''.m4a''
        in case uploadAudioFile e uri fileName s of
             (Inl err, s1) \<Rightarrow> (Some err, r, s1, ev)
           | (Inr filePath, s1) \<Rightarrow>
               let recordData =
                     \<lparr>cd_title = trim (r_title r),
                      cd_description = (if trim (r_description r) = [] then None
                                        else Some (trim (r_description r))),
                      cd_file_path = filePath, cd_file_size = int (blob_size e),
                      cd_duration = r_duration r,
                      cd_points_earned = totalPoints (r_duration r)\<rparr>
               in (case saveAudioRecord e recordData s1 of
                    (Inl err, s2) \<Rightarrow> (Some err, r, s2, ev)
                  | (Inr savedRecord, s2) \<Rightarrow>
                      (case awardPoints e (totalPoints (r_duration r)) s2 of
                         (Inl err, s3) \<Rightarrow> (Some err, r, s3, ev)
                       | (Inr _, s3) \<Rightarrow>
                           (case updateStreak e s3 of
                              (Inl err, s4) \<Rightarrow> (Some err, r, s4, ev)
                            | (Inr _, s4) \<Rightarrow>
                                (case checkAndAwardAchievements e s4 of
                                   (Inl err, s5) \<Rightarrow> (Some err, r, s5, ev)
                                 | (Inr newAchievements, s5) \<Rightarrow>
                                     (case getUserAudioRecords e s5 of
                                        Inl err \<Rightarrow> (Some err, r, s5, ev)
                                      | Inr _ \<Rightarrow>
                                          (None, discardRecording r, s5,
                                           ev @ [SavedAlert (totalPoints (r_duration r)) basePoints
                                                   (durationBonus (r_duration r))
                                                   (length newAchievements),
                                                 OnRecordingSaved])))))))"

text \<open>
  The \<open>catch\<close> block of \<open>validateAndSave\<close> builds its alert text from \<open>totalPoints\<close>, a
  \<open>const\<close> declared inside the \<open>try\<close> block and so not in scope in the handler: evaluating
  the message throws a \<open>ReferenceError\<close> before \<open>showAlert\<close> is called, the form is not
  reset, \<open>finally\<close> clears \<open>isSaving\<close> and the promise is rejected.  The result is the
  exception the promise is rejected with (\<open>None\<close> when it resolves).  A missing and an
  empty \<open>uri\<close> are both falsy: the function returns without doing anything.
\<close>

definition validateAndSave ::
  "env \<Rightarrow> recorder \<times> db \<times> event list \<Rightarrow> error option \<times> recorder \<times> db \<times> event list" where
  "validateAndSave e w =
     (case w of (r, s, ev) \<Rightarrow>
        if trim (r_title r) = [] then (None, r\<lparr>r_titleError := ''Title is required''\<rparr>, s, ev)
        else
          (case r_uri r of
             None \<Rightarrow> (None, r, s, ev)
           | Some uri \<Rightarrow>
               if uri = [] then (None, r, s, ev)
               else
                 (case save_try e (r\<lparr>r_titleError := [], r_isSaving := True\<rparr>) uri s ev of
                    (None, r2, s2, ev2) \<Rightarrow> (None, r2\<lparr>r_isSaving := False\<rparr>, s2, ev2)
                  | (Some err, r2, s2, ev2) \<Rightarrow>
                      (Some ReferenceError, r2\<lparr>r_isSaving := False\<rparr>, s2, ev2))))"

section \<open>History screen: deleting a recording\<close>

record history =
  h_records :: "audio_record list"
  h_playback :: "nat option"
  h_playingRecordId :: "ident option"
  h_isPlaying :: bool
  h_isPaused :: bool
  h_position :: real
  h_duration :: real

text \<open>\<open>stopAudio\<close> swallows what the player throws: the state is reset only when both
  \<open>stopAsync\<close> and \<open>unloadAsync\<close> went through.\<close>

definition stopAudio :: "env \<Rightarrow> history \<times> event list \<Rightarrow> history \<times> event list" where
  "stopAudio e w =
     (case w of (h, ev) \<Rightarrow>
        (case h_playback h of
           None \<Rightarrow> (h, ev)
         | Some sound \<Rightarrow>
             if stop_async_fails e
             then (h, ev @ [StopAsync, ConsoleError ''Stop audio error''])
             else if unload_async_fails e
             then (h, ev @ [StopAsync, UnloadAsync, ConsoleError ''Stop audio error''])
             else (h\<lparr>h_playback := None, h_playingRecordId := None, h_isPlaying := False,
                     h_isPaused := False, h_position := 0, h_duration := 0\<rparr>,
                   ev @ [StopAsync, UnloadAsync])))"

definition deleteAudioRecord ::
  "env \<Rightarrow> ident \<Rightarrow> string \<Rightarrow> db \<times> event list \<Rightarrow> (error + unit) \<times> db \<times> event list" where
  "deleteAudioRecord e rid filePath w =
     (case w of (s, ev) \<Rightarrow>
        let s1 = (if storage_remove_fails e then s
                  else s\<lparr>audio_files := removeAll filePath (audio_files s)\<rparr>);
            ev1 = ev @ [StorageRemove filePath]
                     @ (if storage_remove_fails e then [ConsoleError ''Delete file error'']
                        else [])
                     @ [DbDelete rid]
        in if db_delete_fails e
           then (Inl DeleteError, s1,
                 ev1 @ [ConsoleError ''Delete record error'',
                        ConsoleError ''Delete audio record error''])
           else (Inr (),
                 s1\<lparr>audio_records := filter (\<lambda>r. ar_id r \<noteq> rid) (audio_records s1)\<rparr>, ev1))"

definition loadRecords :: "env \<Rightarrow> history \<times> db \<times> event list \<Rightarrow> history \<times> event list" where
  "loadRecords e w =
     (case w of (h, s, ev) \<Rightarrow>
        (case getUserAudioRecords e s of
           Inl err \<Rightarrow> (h, ev @ [ConsoleError ''Fetch records error'',
                                 ConsoleError ''Get audio records error'',
                                 ConsoleError ''Load records error'',
                                 Alert ''Load Error'' ''Failed to load audio records''])
         | Inr audioRecords \<Rightarrow> (h\<lparr>h_records := audioRecords\<rparr>, ev)))"

definition deleteRecord ::
  "env \<Rightarrow> audio_record \<Rightarrow> history \<times> db \<times> event list \<Rightarrow> history \<times> db \<times> event list" where
  "deleteRecord e record w =
     (case w of (h, s, ev) \<Rightarrow>
        (case (if h_playingRecordId h = Some (ar_id record) then stopAudio e (h, ev)
               else (h, ev)) of
           (h1, ev1) \<Rightarrow>
             (case deleteAudioRecord e (ar_id record) (ar_file_path record) (s, ev1) of
                (Inl err, s2, ev2) \<Rightarrow>
                  (h1, s2, ev2 @ [ConsoleError ''Delete record error'',
                                  Alert ''Delete Error'' ''Failed to delete recording''])
              | (Inr _, s2, ev2) \<Rightarrow>
                  (case loadRecords e
                          (h1, s2, ev2 @ [Alert ''Deleted'' ''Recording deleted successfully''])
                   of (h3, ev3) \<Rightarrow> (h3, s2, ev3)))))"

section \<open>Sequences of assignment calls\<close>

datatype assignment_call =
    CompleteCall ident ident
  | ReviewCall ident int "string option" "string option"

fun apply_call :: "assignment_call \<Rightarrow> db \<Rightarrow> db" where
  "apply_call (CompleteCall assignmentId recordingId) s =
     snd (completeAssignment assignmentId recordingId s)"
| "apply_call (ReviewCall assignmentId rating feedback quality) s =
     snd (reviewAssignment assignmentId rating feedback quality s)"

definition run_calls :: "assignment_call list \<Rightarrow> db \<Rightarrow> db" where
  "run_calls cs s = fold apply_call cs s"

section \<open>A small store for concrete runs\<close>

definition demo_env :: env where
  "demo_env =
     \<lparr>auth_user = Some ''u1'', today = ''2025-03-02'', week_start = 0, now = 7,
      timestamp = ''t7'', new_profile_id = ''p9'', new_streak_id = ''s9'',
      new_record_id = ''r9'', create_profile_fails = False, update_points_fails = False,
      insert_streak_fails = False, achievements_query_fails = False, upload_fails = False,
      insert_record_fails = False, records_query_fails = False,
      storage_remove_fails = False, db_delete_fails = False, stop_async_fails = False,
      unload_async_fails = False, file_ok = True, blob_size = 2048\<rparr>"

definition demo_profile :: profile where
  "demo_profile =
     \<lparr>p_id = ''p1'', p_user_id = ''u1'', p_points = Some 250, p_diamonds = Some 3,
      p_current_streak = Some 4, p_longest_streak = Some 6, p_level = Some 3,
      p_last_activity = Some ''2025-02-20''\<rparr>"

definition demo_db :: db where
  "demo_db =
     \<lparr>profiles = [demo_profile], reading_streaks = [], achievements = [],
      user_achievements = [], audio_records = [], reading_assignments = [],
      audio_files = []\<rparr>"


definition demo_record :: "ident \<Rightarrow> audio_record" where
  "demo_record rid =
     \<lparr>ar_id = rid, ar_user_id = ''u1'', ar_title = ''Chapter 1'', ar_description = None,
      ar_file_path = ''u1/'' @ rid @ ''.m4a'', ar_file_size = Some 2048,
      ar_duration = Some 90, ar_points_earned = 14, ar_created_at = 3,
      ar_assignment_id = None, ar_parent_rating = None, ar_parent_feedback = None,
      ar_reading_quality = None\<rparr>"

definition asg_db :: db where
  "asg_db =
     demo_db\<lparr>audio_records := [demo_record ''r1'', demo_record ''r2''],
             reading_assignments :=
               [\<lparr>ra_id = ''a1'', ra_student_id = ''u1'', ra_status = Pending\<rparr>],
             audio_files := [''u1/r1.m4a'', ''u1/r2.m4a'']\<rparr>"

definition ach_points :: achievement where
  "ach_points =
     \<lparr>a_id = ''a1'', a_requirement_type = Points, a_requirement_value = 200,
      a_points_reward = 100, a_diamonds_reward = 2\<rparr>"

definition ach_more_points :: achievement where
  "ach_more_points =
     \<lparr>a_id = ''a2'', a_requirement_type = Points, a_requirement_value = 300,
      a_points_reward = 0, a_diamonds_reward = 0\<rparr>"

text \<open>Two stores with the same catalogue: in \<open>ach_db\<close> the profile row has a key of its
  own, as a row inserted by \<open>getStudentProgress\<close> has; in \<open>ach_db_same_id\<close> its \<open>id\<close>
  column holds the user's id.\<close>

definition ach_db :: db where
  "ach_db = demo_db\<lparr>achievements := [ach_points, ach_more_points]\<rparr>"

definition ach_db_same_id :: db where
  "ach_db_same_id = ach_db\<lparr>profiles := [demo_profile\<lparr>p_id := ''u1''\<rparr>]\<rparr>"

definition demo_recorder :: recorder where
  "demo_recorder =
     \<lparr>r_title = ''Chapter 1'', r_description = [], r_isRecording = False,
      r_isPaused = False, r_duration = 90, r_uri = Some ''file:///rec.m4a'',
      r_isSaving = False, r_titleError = []\<rparr>"

definition demo_history :: history where
  "demo_history =
     \<lparr>h_records = [demo_record ''r1'', demo_record ''r2''], h_playback = Some 1,
      h_playingRecordId = Some ''r1'', h_isPlaying = True, h_isPaused = False,
      h_position = 12, h_duration = 90\<rparr>"

section \<open>Basic facts\<close>

lemma single_row_Some_iff: "single_row xs = Some r \<longleftrightarrow> xs = [r]"
  by (auto simp add: single_row_def split: list.splits)

lemma single_row_singleton [simp]: "single_row [r] = Some r"
  by (simp add: single_row_def)

lemma single_row_Nil [simp]: "single_row [] = None"
  by (simp add: single_row_def)

lemma orElse_Some [simp]: "orElse (Some v) 0 = v"
  by (simp add: orElse_def)

lemma gsp_auth:
  "auth_user e = Some uid \<Longrightarrow> \<exists>r. fst (getStudentProgress e s) = Inr r"
  by (simp add: getStudentProgress_def Let_def split: option.splits)

lemma check_auth:
  "auth_user e = Some uid \<Longrightarrow>
     (if achievements_query_fails e then fst (checkAndAwardAchievements e s) = Inl QueryError
      else \<exists>r. fst (checkAndAwardAchievements e s) = Inr r)"
  using gsp_auth[of e uid s]
  by (auto simp add: checkAndAwardAchievements_def split: option.splits sum.splits prod.splits)

lemma progress_of_next:
  "nextLevelPoints (progress_of e uid p s) =
     max 0 (level (progress_of e uid p s) * 100 - points (progress_of e uid p s))"
  by (simp add: progress_of_def Let_def)

lemma gsp_next:
  "fst (getStudentProgress e s) = Inr r \<Longrightarrow> nextLevelPoints r = max 0 (level r * 100 - points r)"
  by (auto simp add: getStudentProgress_def Let_def progress_of_next default_progress_def
      split: option.splits if_splits)

lemma awardPoints_unfold:
  assumes "auth_user e = Some uid"
    and "single_row (filter (\<lambda>p. p_user_id p = uid) (profiles s)) = Some profile"
  shows "awardPoints e d s =
     (let np = orElse (p_points profile) 0 + d; nl = np div 100 + 1
      in if update_points_fails e then (Inr \<lparr>newPoints = np, newLevel = nl\<rparr>, s)
         else (case checkAndAwardAchievements e
                      (s\<lparr>profiles := map (\<lambda>p. if p_user_id p = uid
                             then p\<lparr>p_points := Some np, p_level := Some nl\<rparr> else p)
                           (profiles s)\<rparr>) of
                 (Inl err, s2) \<Rightarrow> (Inl err, s2)
               | (Inr _, s2) \<Rightarrow> (Inr \<lparr>newPoints = np, newLevel = nl\<rparr>, s2)))"
  using assms unfolding awardPoints_def by (simp add: Let_def)

lemma ceiling_half: "\<lceil>(1::real) / 2\<rceil> = 1"
  by (rule ceiling_unique) simp_all

lemma filter_map_upd:
  "(\<And>q. P (f q) = P q) \<Longrightarrow> filter P (map (\<lambda>q. if P q then f q else q) xs) = map f (filter P xs)"
  by (induction xs) auto

lemma filter_singleton_mem:
  "filter P xs = [r] \<Longrightarrow> p \<in> set xs \<Longrightarrow> P p \<Longrightarrow> p = r"
proof -
  assume a: "filter P xs = [r]" and b: "p \<in> set xs" and c: "P p"
  from b c have "p \<in> set (filter P xs)" by simp
  with a show "p = r" by simp
qed


lemma list_all2_map_same:
  "list_all2 R xs (map f xs) \<longleftrightarrow> (\<forall>x\<in>set xs. R x (f x))"
  by (simp add: list_all2_map2 list_all2_same)

lemma list_all2_refl_same: "(\<And>x. R x x) \<Longrightarrow> list_all2 R xs xs"
  by (simp add: list_all2_same)


lemma gsp_found:
  assumes "auth_user e = Some uid"
    and "single_row (filter (\<lambda>p. p_user_id p = uid) (profiles s)) = Some profile"
  shows "getStudentProgress e s = (Inr (progress_of e uid profile s), s)"
  using assms by (simp add: getStudentProgress_def)

lemma progress_of_fields:
  "points (progress_of e uid p s) = orElse (p_points p) 0"
  "level (progress_of e uid p s) = orElse (p_level p) 1"
  by (simp_all add: progress_of_def Let_def)

section \<open>Points and levels\<close>

text \<open>
  C1, as stated: whenever the profile is found, awarding points yields the new points and
  the new level.  \<open>awardPoints\<close> runs the achievement evaluation after it has written the
  row and lets its exception through: when the catalogue query of the evaluation fails,
  the call throws, with 264 points and level 3 already in the store, and yields nothing.
\<close>

theorem awardPoints_query_failure_counterexample:
  "awardPoints (demo_env\<lparr>achievements_query_fails := True\<rparr>) 14 demo_db =
     (Inl QueryError,
      demo_db\<lparr>profiles := [demo_profile\<lparr>p_points := Some 264, p_level := Some 3\<rparr>]\<rparr>)"
  by (simp add: awardPoints_def checkAndAwardAchievements_def getStudentProgress_def
      progress_of_def Let_def demo_env_def demo_db_def demo_profile_def)

text \<open>
  C1, amended.  For a signed-in user whose profile row is found with \<open>P \<ge> 0\<close> points and
  for \<open>d \<ge> 0\<close>: if the profile update fails, \<open>awardPoints\<close> returns new points \<open>P + d\<close>
  and new level \<open>(P + d) div 100 + 1\<close> and leaves the store as it is; otherwise it writes
  these two numbers into the row, runs the achievement evaluation on that store, and
  returns the same result unless the catalogue query of the evaluation fails, in which
  case it throws that error.  The new level is at least 1.  Read back from the store with
  the written row, \<open>getStudentProgress\<close> reports these points and this level; for every
  found profile it reports \<open>points || 0\<close>, \<open>level || 1\<close> of the row and
  \<open>nextLevelPoints = max 0 (level * 100 - points)\<close>, a relation that holds of every report.
\<close>

theorem awardPoints_found:
  assumes auth: "auth_user e = Some uid"
    and found: "single_row (filter (\<lambda>p. p_user_id p = uid) (profiles s)) = Some profile"
    and pts: "p_points profile = Some P" and P: "0 \<le> P" and d: "0 \<le> d"
  shows "(let s1 = s\<lparr>profiles :=
                      map (\<lambda>p. if p_user_id p = uid
                                then p\<lparr>p_points := Some (P + d),
                                       p_level := Some ((P + d) div 100 + 1)\<rparr>
                                else p) (profiles s)\<rparr>
          in (if update_points_fails e
              then awardPoints e d s = (Inr (spec_calculator P d), s)
              else snd (awardPoints e d s) = snd (checkAndAwardAchievements e s1)
                   \<and> (if achievements_query_fails e
                        then fst (awardPoints e d s) = Inl QueryError
                        else fst (awardPoints e d s) = Inr (spec_calculator P d)))
             \<and> (\<exists>r. getStudentProgress e s1 = (Inr r, s1)
                      \<and> points r = P + d \<and> level r = (P + d) div 100 + 1
                      \<and> nextLevelPoints r = max 0 (level r * 100 - points r)))
         \<and> newPoints (spec_calculator P d) = P + d
         \<and> newLevel (spec_calculator P d) = (P + d) div 100 + 1
         \<and> 1 \<le> newLevel (spec_calculator P d)
         \<and> (\<forall>e' t u prof.
               auth_user e' = Some u
               \<and> single_row (filter (\<lambda>p. p_user_id p = u) (profiles t)) = Some prof
               \<longrightarrow> (\<exists>r. getStudentProgress e' t = (Inr r, t)
                        \<and> points r = orElse (p_points prof) 0
                        \<and> level r = orElse (p_level prof) 1
                        \<and> nextLevelPoints r = max 0 (level r * 100 - points r)))
         \<and> (\<forall>e' t r. fst (getStudentProgress e' t) = Inr r \<longrightarrow>
               nextLevelPoints r = max 0 (level r * 100 - points r))"
proof -
  have o: "orElse (p_points profile) 0 = P"
    using pts by simp
  define nl where "nl = (P + d) div 100 + 1"
  define s1 where "s1 = s\<lparr>profiles := map (\<lambda>p. if p_user_id p = uid
        then p\<lparr>p_points := Some (P + d), p_level := Some nl\<rparr> else p) (profiles s)\<rparr>"
  let ?r = "\<lparr>newPoints = P + d, newLevel = nl\<rparr>"
  have b: "1 \<le> nl"
    using P d by (simp add: nl_def pos_imp_zdiv_nonneg_iff)
  have unf: "awardPoints e d s =
      (if update_points_fails e then (Inr ?r, s)
       else (case checkAndAwardAchievements e s1 of
               (Inl err, s2) \<Rightarrow> (Inl err, s2)
             | (Inr _, s2) \<Rightarrow> (Inr ?r, s2)))"
    unfolding awardPoints_unfold [OF auth found] s1_def nl_def
    by (simp add: o Let_def)
  have a: "if update_points_fails e
              then awardPoints e d s = (Inr ?r, s)
              else snd (awardPoints e d s) = snd (checkAndAwardAchievements e s1)
                   \<and> (if achievements_query_fails e
                        then fst (awardPoints e d s) = Inl QueryError
                        else fst (awardPoints e d s) = Inr ?r)"
  proof (cases "update_points_fails e")
    case True
    then show ?thesis by (simp add: unf)
  next
    case False
    obtain c t where c: "checkAndAwardAchievements e s1 = (c, t)"
      by (cases "checkAndAwardAchievements e s1")
    show ?thesis
      using check_auth [OF auth, of s1] False c
      by (auto simp add: unf)
  qed
  have f1: "filter (\<lambda>p. p_user_id p = uid) (profiles s1)
              = [profile\<lparr>p_points := Some (P + d), p_level := Some nl\<rparr>]"
  proof -
    have "filter (\<lambda>p. p_user_id p = uid)
            (map (\<lambda>p. if p_user_id p = uid
                       then p\<lparr>p_points := Some (P + d), p_level := Some nl\<rparr> else p) (profiles s))
          = map (\<lambda>p. p\<lparr>p_points := Some (P + d), p_level := Some nl\<rparr>)
              (filter (\<lambda>p. p_user_id p = uid) (profiles s))"
      by (rule filter_map_upd) simp
    with found show ?thesis
      by (simp add: s1_def single_row_Some_iff)
  qed
  have g1: "getStudentProgress e s1
              = (Inr (progress_of e uid (profile\<lparr>p_points := Some (P + d), p_level := Some nl\<rparr>) s1), s1)"
    by (rule gsp_found [OF auth]) (simp add: f1)
  have nz: "nl \<noteq> 0" using b by simp
  have g: "\<exists>r. getStudentProgress e s1 = (Inr r, s1)
                      \<and> points r = P + d \<and> level r = nl
                      \<and> nextLevelPoints r = max 0 (level r * 100 - points r)"
    unfolding g1 using nz
    by (simp add: progress_of_fields progress_of_next) (simp add: orElse_def)
  have tie: "\<exists>r. getStudentProgress e' t = (Inr r, t)
                        \<and> points r = orElse (p_points prof) 0
                        \<and> level r = orElse (p_level prof) 1
                        \<and> nextLevelPoints r = max 0 (level r * 100 - points r)"
    if "auth_user e' = Some u
               \<and> single_row (filter (\<lambda>p. p_user_id p = u) (profiles t)) = Some prof"
    for e' t u prof
    using gsp_found [of e' u t prof] that
    by (simp add: progress_of_fields progress_of_next)
  have main: "(if update_points_fails e
              then awardPoints e d s = (Inr (spec_calculator P d), s)
              else snd (awardPoints e d s) = snd (checkAndAwardAchievements e s1)
                   \<and> (if achievements_query_fails e
                        then fst (awardPoints e d s) = Inl QueryError
                        else fst (awardPoints e d s) = Inr (spec_calculator P d)))
             \<and> (\<exists>r. getStudentProgress e s1 = (Inr r, s1)
                      \<and> points r = P + d \<and> level r = (P + d) div 100 + 1
                      \<and> nextLevelPoints r = max 0 (level r * 100 - points r))"
    using a g by (simp add: spec_calculator_def nl_def)
  have rest: "newPoints (spec_calculator P d) = P + d
         \<and> newLevel (spec_calculator P d) = (P + d) div 100 + 1
         \<and> 1 \<le> newLevel (spec_calculator P d)"
    using b by (simp add: spec_calculator_def nl_def)
  show ?thesis
    unfolding Let_def
    using main [unfolded s1_def nl_def] rest tie gsp_next
    by blast
qed


theorem awardPoints_found_witness:
  "fst (awardPoints demo_env 14 demo_db) = Inr \<lparr>newPoints = 264, newLevel = 3\<rparr>
   \<and> (\<exists>r. getStudentProgress demo_env demo_db = (Inr r, demo_db)
           \<and> points r = 250 \<and> level r = 3 \<and> nextLevelPoints r = 50)"
proof -
  have h1: "auth_user demo_env = Some ''u1''"
    by (simp add: demo_env_def)
  have h2: "single_row (filter (\<lambda>p. p_user_id p = ''u1'') (profiles demo_db)) = Some demo_profile"
    by (simp add: demo_db_def demo_profile_def)
  have h3: "p_points demo_profile = Some 250"
    by (simp add: demo_profile_def)
  have h4: "\<not> achievements_query_fails demo_env" "\<not> update_points_fails demo_env"
    by (simp_all add: demo_env_def)
  have h5: "orElse (p_points demo_profile) 0 = 250" "orElse (p_level demo_profile) 1 = 3"
    by (simp_all add: demo_profile_def orElse_def)
  have p: "(0::int) \<le> 250" "(0::int) \<le> 14"
    by simp_all
  note t = awardPoints_found [OF h1 h2 h3 p]
  from t h4 have a: "fst (awardPoints demo_env 14 demo_db) = Inr (spec_calculator 250 14)"
    by (simp add: Let_def)
  from t h1 h2 have "\<exists>r. getStudentProgress demo_env demo_db = (Inr r, demo_db)
                        \<and> points r = orElse (p_points demo_profile) 0
                        \<and> level r = orElse (p_level demo_profile) 1
                        \<and> nextLevelPoints r = max 0 (level r * 100 - points r)"
    by blast
  then obtain r where r: "getStudentProgress demo_env demo_db = (Inr r, demo_db)"
    "points r = 250" "level r = 3" "nextLevelPoints r = max 0 (level r * 100 - points r)"
    by (auto simp add: h5)
  from a r show ?thesis
    by (simp add: spec_calculator_def)
qed


text \<open>
  C9, as stated: without a profile row \<open>awardPoints\<close> returns what the calculator gives on
  the default profile of 0 points.  It does not for a delta of 100: the level returned is
  the constant 1, the calculator's is 2.
\<close>

theorem awardPoints_no_profile_counterexample:
  "fst (awardPoints demo_env 100 (demo_db\<lparr>profiles := []\<rparr>)) = Inr \<lparr>newPoints = 100, newLevel = 1\<rparr>
   \<and> spec_calculator 0 100 = \<lparr>newPoints = 100, newLevel = 2\<rparr>
   \<and> fst (awardPoints demo_env 100 (demo_db\<lparr>profiles := []\<rparr>)) \<noteq> Inr (spec_calculator 0 100)"
  by (simp add: awardPoints_def demo_env_def demo_db_def spec_calculator_def)

text \<open>
  C9, amended.  When a signed-in user's profile row cannot be resolved, \<open>awardPoints\<close> does
  not throw and writes nothing: it returns new points \<open>d\<close> and new level 1.  That is the
  calculator's result on the default profile whenever \<open>0 \<le> d < 100\<close>.
\<close>

theorem awardPoints_no_profile:
  assumes auth: "auth_user e = Some uid"
    and missing: "single_row (filter (\<lambda>p. p_user_id p = uid) (profiles s)) = None"
  shows "awardPoints e d s = (Inr \<lparr>newPoints = d, newLevel = 1\<rparr>, s)
         \<and> (0 \<le> d \<and> d < 100 \<longrightarrow> fst (awardPoints e d s) = Inr (spec_calculator 0 d))"
  using auth missing
  by (simp add: awardPoints_def spec_calculator_def)

theorem awardPoints_no_profile_witness:
  "awardPoints demo_env 14 (demo_db\<lparr>profiles := []\<rparr>)
     = (Inr \<lparr>newPoints = 14, newLevel = 1\<rparr>, demo_db\<lparr>profiles := []\<rparr>)
   \<and> fst (awardPoints demo_env 14 (demo_db\<lparr>profiles := []\<rparr>)) = Inr (spec_calculator 0 14)"
proof -
  have h1: "auth_user demo_env = Some ''u1''"
    by (simp add: demo_env_def)
  have h2: "single_row (filter (\<lambda>p. p_user_id p = ''u1'') (profiles (demo_db\<lparr>profiles := []\<rparr>))) = None"
    by simp
  from awardPoints_no_profile [OF h1 h2, of 14] show ?thesis
    by (simp add: spec_calculator_def)
qed

section \<open>Streaks\<close>

text \<open>
  C10.  No call of \<open>updateStreak\<close>, on any day, by any user and from any store, lowers the
  current streak of any profile row: each row keeps its keys and its streak is either
  unchanged or the old streak plus one.  Nothing compares the day of the call with
  \<open>last_activity\<close> or with the ledger of earlier days, so skipped days never reset it.
\<close>

theorem updateStreak_never_decreases:
  "list_all2 (\<lambda>p p'. p_id p' = p_id p \<and> p_user_id p' = p_user_id p
                \<and> orElse (p_current_streak p) 0 \<le> orElse (p_current_streak p') 0
                \<and> (p_current_streak p' = p_current_streak p
                     \<or> p_current_streak p' = Some (orElse (p_current_streak p) 0 + 1)))
     (profiles s) (profiles (snd (updateStreak e s)))"
proof -
  let ?R = "\<lambda>p p'. p_id p' = p_id p \<and> p_user_id p' = p_user_id p
                \<and> orElse (p_current_streak p) 0 \<le> orElse (p_current_streak p') 0
                \<and> (p_current_streak p' = p_current_streak p
                     \<or> p_current_streak p' = Some (orElse (p_current_streak p) 0 + 1))"
  have same: "list_all2 ?R (profiles s) (profiles s)"
    by (rule list_all2_refl_same) simp
  have upd: "list_all2 ?R (profiles s)
       (map (\<lambda>p. if p_user_id p = uid
                  then p\<lparr>p_current_streak := Some (orElse (p_current_streak profile) 0 + 1),
                         p_longest_streak := Some l, p_last_activity := Some t\<rparr>
                  else p) (profiles s))"
    if "filter (\<lambda>p. p_user_id p = uid) (profiles s) = [profile]" for uid profile l t
  proof -
    have "p = profile" if "p \<in> set (profiles s)" "p_user_id p = uid" for p
      using filter_singleton_mem [OF \<open>filter _ _ = [profile]\<close> that(1)] that(2) by simp
    then show ?thesis
      by (auto simp add: list_all2_map_same)
  qed
  show ?thesis
    using same upd
    by (auto simp add: updateStreak_def Let_def single_row_Some_iff split: option.splits)
qed








section \<open>Assignments\<close>

lemma set_status_assignments:
  "reading_assignments (set_status aid st s) =
     map (\<lambda>a. if ra_id a = aid then a\<lparr>ra_status := st\<rparr> else a) (reading_assignments s)"
  by (simp add: set_status_def)

lemma complete_assignments:
  "reading_assignments (snd (completeAssignment aid rid s)) =
     map (\<lambda>a. if ra_id a = aid then a\<lparr>ra_status := Completed\<rparr> else a) (reading_assignments s)"
  by (simp add: completeAssignment_def Let_def set_status_def split: option.splits)

lemma review_assignments:
  "reading_assignments (snd (reviewAssignment aid rating fb q s)) =
     map (\<lambda>a. if ra_id a = aid then a\<lparr>ra_status := Reviewed\<rparr> else a) (reading_assignments s)"
  by (simp add: reviewAssignment_def Let_def set_status_def split: option.splits)

lemma apply_call_not_pending:
  "list_all2 (\<lambda>a a'. ra_id a' = ra_id a \<and> (ra_status a' = Pending \<longrightarrow> ra_status a = Pending))
     (reading_assignments s) (reading_assignments (apply_call c s))"
  by (cases c) (auto simp add: complete_assignments review_assignments list_all2_map_same)

lemma run_calls_not_pending:
  "list_all2 (\<lambda>a a'. ra_id a' = ra_id a \<and> (ra_status a' = Pending \<longrightarrow> ra_status a = Pending))
     (reading_assignments s) (reading_assignments (run_calls cs s))"
proof (induction cs arbitrary: s)
  case Nil
  show ?case by (simp add: run_calls_def list_all2_same)
next
  case (Cons c cs)
  let ?R = "\<lambda>a a'. ra_id a' = ra_id a \<and> (ra_status a' = Pending \<longrightarrow> ra_status a = Pending)"
  have 1: "list_all2 ?R (reading_assignments s) (reading_assignments (apply_call c s))"
    by (rule apply_call_not_pending)
  have 2: "list_all2 ?R (reading_assignments (apply_call c s))
             (reading_assignments (run_calls cs (apply_call c s)))"
    by (rule Cons.IH)
  have "list_all2 ?R (reading_assignments s) (reading_assignments (run_calls cs (apply_call c s)))"
    by (rule list_all2_trans [OF _ 1 2]) simp
  then show ?case by (simp add: run_calls_def)
qed

lemma set_status_audio_records [simp]:
  "audio_records (set_status aid st s) = audio_records s"
  by (simp add: set_status_def)

lemma set_status_filter:
  "filter (\<lambda>a. ra_id a = aid) (reading_assignments (set_status aid st s)) =
     map (\<lambda>a. a\<lparr>ra_status := st\<rparr>) (filter (\<lambda>a. ra_id a = aid) (reading_assignments s))"
  unfolding set_status_assignments
  by (rule filter_map_upd) simp

lemma completeAssignment_unfold:
  "completeAssignment aid rid s =
     (case single_row (map (\<lambda>a. a\<lparr>ra_status := Completed\<rparr>)
                           (filter (\<lambda>a. ra_id a = aid) (reading_assignments s))) of
        None \<Rightarrow> (Inl UpdateError, set_status aid Completed s)
      | Some data \<Rightarrow>
          (Inr data,
           (set_status aid Completed s)\<lparr>audio_records :=
              map (\<lambda>r. if ar_id r = rid then r\<lparr>ar_assignment_id := Some aid\<rparr> else r)
                  (audio_records s)\<rparr>))"
  by (simp add: completeAssignment_def Let_def set_status_filter split: option.splits)

lemma completeAssignment_link:
  "(case fst (completeAssignment aid rid s) of
         Inl err \<Rightarrow> audio_records (snd (completeAssignment aid rid s)) = audio_records s
       | Inr data \<Rightarrow>
           ra_id data = aid \<and> ra_status data = Completed
           \<and> audio_records (snd (completeAssignment aid rid s)) =
               map (\<lambda>r. if ar_id r = rid then r\<lparr>ar_assignment_id := Some aid\<rparr> else r)
                   (audio_records s))"
proof (cases "filter (\<lambda>a. ra_id a = aid) (reading_assignments s)")
  case Nil
  then show ?thesis by (simp add: completeAssignment_unfold)
next
  case (Cons a rest)
  have "a \<in> set (filter (\<lambda>a. ra_id a = aid) (reading_assignments s))"
    by (simp add: Cons)
  then have ida: "ra_id a = aid" by simp
  show ?thesis
  proof (cases rest)
    case Nil
    with Cons ida show ?thesis by (simp add: completeAssignment_unfold)
  next
    case (Cons b rest')
    with \<open>filter _ _ = a # rest\<close> show ?thesis
      by (simp add: completeAssignment_unfold single_row_def)
  qed
qed

text \<open>
  C5, as stated: the status only moves forward, one state at a time, and completing links
  exactly one recording.  On a store with one pending assignment, \<open>reviewAssignment\<close>
  takes it from pending straight to reviewed, \<open>completeAssignment\<close> then takes it back
  from reviewed to completed, and completing twice with two recordings leaves both linked
  to the assignment.
\<close>

theorem assignment_status_counterexample:
  "map ra_status (reading_assignments asg_db) = [Pending]
   \<and> map ra_status (reading_assignments (snd (reviewAssignment ''a1'' 5 None None asg_db))) = [Reviewed]
   \<and> map ra_status (reading_assignments
         (snd (completeAssignment ''a1'' ''r1'' (snd (reviewAssignment ''a1'' 5 None None asg_db)))))
       = [Completed]
   \<and> map ar_assignment_id (audio_records
         (snd (completeAssignment ''a1'' ''r2'' (snd (completeAssignment ''a1'' ''r1'' asg_db)))))
       = [Some ''a1'', Some ''a1'']"
  by (simp add: reviewAssignment_def completeAssignment_def set_status_def asg_db_def demo_db_def
      demo_record_def Let_def)



text \<open>
  C5, amended.  Neither function reads the current status: \<open>completeAssignment\<close> sets the
  status of the rows with the given id to completed and \<open>reviewAssignment\<close> sets it to
  reviewed, whatever it was, and leaves the other assignments alone.  Over every sequence
  of the two calls no assignment changes its id and none that has left pending is pending
  again.  A \<open>completeAssignment\<close> that succeeds returns the completed row and sets
  \<open>assignment_id\<close> on the recordings with the given recording id, leaving the other
  recordings (and their links) as they are; one that throws links nothing.
\<close>

theorem assignment_calls_overwrite_status:
  "reading_assignments (snd (completeAssignment aid rid s)) =
     map (\<lambda>a. if ra_id a = aid then a\<lparr>ra_status := Completed\<rparr> else a) (reading_assignments s)
   \<and> reading_assignments (snd (reviewAssignment aid rating fb q s)) =
     map (\<lambda>a. if ra_id a = aid then a\<lparr>ra_status := Reviewed\<rparr> else a) (reading_assignments s)
   \<and> list_all2 (\<lambda>a a'. ra_id a' = ra_id a \<and> (ra_status a' = Pending \<longrightarrow> ra_status a = Pending))
        (reading_assignments s) (reading_assignments (run_calls cs s))
   \<and> (case fst (completeAssignment aid rid s) of
         Inl err \<Rightarrow> audio_records (snd (completeAssignment aid rid s)) = audio_records s
       | Inr data \<Rightarrow>
           ra_id data = aid \<and> ra_status data = Completed
           \<and> audio_records (snd (completeAssignment aid rid s)) =
               map (\<lambda>r. if ar_id r = rid then r\<lparr>ar_assignment_id := Some aid\<rparr> else r)
                   (audio_records s))"
  by (intro conjI complete_assignments review_assignments run_calls_not_pending
      completeAssignment_link)


theorem assignment_calls_overwrite_status_witness:
  "map ra_status (reading_assignments
      (run_calls [CompleteCall ''a1'' ''r1'', ReviewCall ''a1'' 5 None None] asg_db)) = [Reviewed]
   \<and> map ar_assignment_id (audio_records (snd (completeAssignment ''a1'' ''r1'' asg_db)))
       = [Some ''a1'', None]"
proof -
  have a: "reading_assignments asg_db = [\<lparr>ra_id = ''a1'', ra_student_id = ''u1'', ra_status = Pending\<rparr>]"
    by (simp add: asg_db_def)
  have b: "audio_records asg_db = [demo_record ''r1'', demo_record ''r2'']"
    by (simp add: asg_db_def)
  have c: "fst (completeAssignment ''a1'' ''r1'' asg_db) =
             Inr \<lparr>ra_id = ''a1'', ra_student_id = ''u1'', ra_status = Completed\<rparr>"
    by (simp add: completeAssignment_unfold a)
  note t1 = assignment_calls_overwrite_status [of "''a1''" "''r1''" asg_db 5 None None "[]"]
  note t2 = assignment_calls_overwrite_status [of "''a1''" "''r1''"
      "snd (completeAssignment ''a1'' ''r1'' asg_db)" 5 None None "[]"]
  from t1 t2 show ?thesis
    by (simp add: run_calls_def a b c demo_record_def)
qed


section \<open>Deleting a recording\<close>

text \<open>
  C7.  \<open>deleteRecord\<close> first stops the player when the record to delete is the one being
  played (\<open>stopAsync\<close>, then \<open>unloadAsync\<close>; after both the playback state is cleared),
  then asks the object store to remove the file, then asks the table to delete the row.
  A failed removal of the file is only logged: the row is deleted all the same and the
  user is told the recording was deleted.  A failed deletion of the row makes
  \<open>deleteAudioRecord\<close> throw: the row stays and the user is told that deleting failed.
\<close>

theorem deleteRecord_stops_then_deletes:
  "(case deleteRecord e recd (h, s, ev) of
      (h', s', ev') \<Rightarrow>
        ev' = ev
          @ (if h_playingRecordId h = Some (ar_id recd) \<and> h_playback h \<noteq> None
             then (if stop_async_fails e then [StopAsync, ConsoleError ''Stop audio error'']
                   else if unload_async_fails e
                   then [StopAsync, UnloadAsync, ConsoleError ''Stop audio error'']
                   else [StopAsync, UnloadAsync])
             else [])
          @ [StorageRemove (ar_file_path recd)]
          @ (if storage_remove_fails e then [ConsoleError ''Delete file error''] else [])
          @ [DbDelete (ar_id recd)]
          @ (if db_delete_fails e
             then [ConsoleError ''Delete record error'', ConsoleError ''Delete audio record error'',
                   ConsoleError ''Delete record error'',
                   Alert ''Delete Error'' ''Failed to delete recording'']
             else [Alert ''Deleted'' ''Recording deleted successfully'']
                  @ (if records_query_fails e
                     then [ConsoleError ''Fetch records error'',
                           ConsoleError ''Get audio records error'',
                           ConsoleError ''Load records error'',
                           Alert ''Load Error'' ''Failed to load audio records'']
                     else []))
        \<and> audio_files s' = (if storage_remove_fails e then audio_files s
                             else removeAll (ar_file_path recd) (audio_files s))
        \<and> audio_records s' = (if db_delete_fails e then audio_records s
                               else filter (\<lambda>r. ar_id r \<noteq> ar_id recd) (audio_records s))
        \<and> (h_playingRecordId h = Some (ar_id recd) \<and> h_playback h \<noteq> None
             \<and> \<not> stop_async_fails e \<and> \<not> unload_async_fails e
             \<longrightarrow> h_playback h' = None \<and> h_playingRecordId h' = None \<and> \<not> h_isPlaying h'))
   \<and> fst (deleteAudioRecord e rid path (s, ev)) =
        (if db_delete_fails e then Inl DeleteError else Inr ())"
  by (simp add: deleteRecord_def deleteAudioRecord_def stopAudio_def loadRecords_def
      getUserAudioRecords_def Let_def split: option.splits)

theorem deleteRecord_stops_then_deletes_witness:
  "snd (snd (deleteRecord (demo_env\<lparr>storage_remove_fails := True\<rparr>) (demo_record ''r1'')
             (demo_history, asg_db, []))) =
     [StopAsync, UnloadAsync, StorageRemove ''u1/r1.m4a'', ConsoleError ''Delete file error'',
      DbDelete ''r1'', Alert ''Deleted'' ''Recording deleted successfully'']
   \<and> audio_records (fst (snd (deleteRecord (demo_env\<lparr>storage_remove_fails := True\<rparr>)
             (demo_record ''r1'') (demo_history, asg_db, [])))) = [demo_record ''r2'']
   \<and> audio_files (fst (snd (deleteRecord (demo_env\<lparr>storage_remove_fails := True\<rparr>)
             (demo_record ''r1'') (demo_history, asg_db, [])))) = [''u1/r1.m4a'', ''u1/r2.m4a'']
   \<and> snd (snd (deleteRecord (demo_env\<lparr>db_delete_fails := True\<rparr>) (demo_record ''r2'')
             (demo_history, asg_db, []))) =
     [StorageRemove ''u1/r2.m4a'', DbDelete ''r2'', ConsoleError ''Delete record error'',
      ConsoleError ''Delete audio record error'', ConsoleError ''Delete record error'',
      Alert ''Delete Error'' ''Failed to delete recording'']"
proof -
  have r1: "ar_id (demo_record ''r1'') = ''r1''" "ar_file_path (demo_record ''r1'') = ''u1/r1.m4a''"
    and r2: "ar_id (demo_record ''r2'') = ''r2''" "ar_file_path (demo_record ''r2'') = ''u1/r2.m4a''"
    by (simp_all add: demo_record_def)
  have h: "h_playingRecordId demo_history = Some ''r1''" "h_playback demo_history = Some 1"
    by (simp_all add: demo_history_def)
  have s: "audio_records asg_db = [demo_record ''r1'', demo_record ''r2'']"
    "audio_files asg_db = [''u1/r1.m4a'', ''u1/r2.m4a'']"
    by (simp_all add: asg_db_def)
  have e: "\<not> stop_async_fails demo_env" "\<not> unload_async_fails demo_env"
    "\<not> records_query_fails demo_env" "\<not> db_delete_fails demo_env"
    "\<not> storage_remove_fails demo_env"
    by (simp_all add: demo_env_def)
  note t1 = deleteRecord_stops_then_deletes [where e = "demo_env\<lparr>storage_remove_fails := True\<rparr>"
      and recd = "demo_record ''r1''" and h = demo_history and s = asg_db and ev = "[]"
      and rid = "''r1''" and path = "''u1/r1.m4a''"]
  note t2 = deleteRecord_stops_then_deletes [where e = "demo_env\<lparr>db_delete_fails := True\<rparr>"
      and recd = "demo_record ''r2''" and h = demo_history and s = asg_db and ev = "[]"
      and rid = "''r2''" and path = "''u1/r2.m4a''"]
  from t1 t2 show ?thesis
    by (simp add: r1 r2 h s e split: prod.splits)
qed


section \<open>Saving a recording\<close>

text \<open>None of the gamification calls touches the table of recordings, so the row a
  successful save leaves there is the one \<open>saveAudioRecord\<close> inserted.\<close>

lemma gsp_audio_records [simp]:
  "audio_records (snd (getStudentProgress e s)) = audio_records s"
  by (simp add: getStudentProgress_def Let_def split: option.splits)

lemma award_achievement_audio_records [simp]:
  "audio_records (award_achievement uid a s) = audio_records s"
  by (simp add: award_achievement_def Let_def)

lemma award_loop_audio_records [simp]:
  "audio_records (snd (award_loop uid stats as (new, s))) = audio_records s"
  by (induction as arbitrary: new s) simp_all

lemma check_audio_records [simp]:
  "audio_records (snd (checkAndAwardAchievements e s)) = audio_records s"
proof (cases "auth_user e")
  case None
  then show ?thesis by (simp add: checkAndAwardAchievements_def)
next
  case (Some uid)
  obtain r s1 where g: "getStudentProgress e s = (r, s1)"
    by (cases "getStudentProgress e s")
  have a: "audio_records s1 = audio_records s"
    using gsp_audio_records [of e s] by (simp add: g)
  show ?thesis
  proof (cases r)
    case (Inl err)
    with Some g a show ?thesis by (simp add: checkAndAwardAchievements_def)
  next
    case (Inr stats)
    obtain n s2 where l: "award_loop uid stats (availableAchievements uid s1) ([], s1) = (n, s2)"
      by (cases "award_loop uid stats (availableAchievements uid s1) ([], s1)")
    have "audio_records s2 = audio_records s1"
      using award_loop_audio_records [of uid stats "availableAchievements uid s1" "[]" s1]
      by (simp add: l)
    with Some g a Inr l show ?thesis by (simp add: checkAndAwardAchievements_def)
  qed
qed

lemma awardPoints_audio_records [simp]:
  "audio_records (snd (awardPoints e d s)) = audio_records s"
proof (cases "auth_user e")
  case None
  then show ?thesis by (simp add: awardPoints_def)
next
  case (Some uid)
  show ?thesis
  proof (cases "single_row (filter (\<lambda>p. p_user_id p = uid) (profiles s))")
    case None
    with Some show ?thesis by (simp add: awardPoints_def)
  next
    case (Some profile)
    define s1 where "s1 = s\<lparr>profiles := map (\<lambda>p. if p_user_id p = uid
        then p\<lparr>p_points := Some (orElse (p_points profile) 0 + d),
               p_level := Some ((orElse (p_points profile) 0 + d) div 100 + 1)\<rparr> else p) (profiles s)\<rparr>"
    obtain c t where c: "checkAndAwardAchievements e s1 = (c, t)"
      by (cases "checkAndAwardAchievements e s1")
    have "audio_records t = audio_records s1"
      using check_audio_records [of e s1] by (simp add: c)
    then have t: "audio_records t = audio_records s" by (simp add: s1_def)
    show ?thesis
      unfolding awardPoints_unfold [OF \<open>auth_user e = Some uid\<close> Some] Let_def
      using c t by (cases c) (simp_all add: s1_def)
  qed
qed

lemma updateStreak_audio_records [simp]:
  "audio_records (snd (updateStreak e s)) = audio_records s"
  by (simp add: updateStreak_def Let_def split: option.splits)

lemma awardPoints_ar: "awardPoints e d s = (a, s') \<Longrightarrow> audio_records s' = audio_records s"
  using awardPoints_audio_records [of e d s] by simp

lemma updateStreak_ar: "updateStreak e s = (a, s') \<Longrightarrow> audio_records s' = audio_records s"
  using updateStreak_audio_records [of e s] by simp

lemma check_ar: "checkAndAwardAchievements e s = (a, s') \<Longrightarrow> audio_records s' = audio_records s"
  using check_audio_records [of e s] by simp

lemma save_try_success:
  assumes "save_try e r uri s ev = (None, r', s', ev')"
  shows "\<exists>uid. auth_user e = Some uid \<and> audio_records s' = audio_records s @
       [\<lparr>ar_id = new_record_id e, ar_user_id = uid, ar_title = trim (r_title r),
         ar_description = (if trim (r_description r) = [] then None
                           else Some (trim (r_description r))),
         ar_file_path = uid @ ''/'' @ ''recording-'' @ timestamp e @ ''.m4a'',
         ar_file_size = (if int (blob_size e) = 0 then None else Some (int (blob_size e))),
         ar_duration = (if r_duration r = 0 then None else Some (r_duration r)),
         ar_points_earned = totalPoints (r_duration r), ar_created_at = now e,
         ar_assignment_id = None, ar_parent_rating = None,
         ar_parent_feedback = None, ar_reading_quality = None\<rparr>]"
  using assms
  by (auto simp add: save_try_def uploadAudioFile_def saveAudioRecord_def Let_def
      split: if_splits sum.splits prod.splits option.splits
      dest!: awardPoints_ar updateStreak_ar check_ar)


lemma ceiling_three_halves: "\<lceil>(3::real) / 2\<rceil> = 2"
  by (rule ceiling_unique) simp_all

text \<open>
  C2.  The points of a recording of \<open>t\<close> seconds are \<open>10 + min (\<lceil>t / 60\<rceil> * 2) 20\<close>: 10 for
  0 seconds, 12 for 30 and for 60 seconds, 30 for 600 seconds.  A save (of a titled
  recording with a local file) that goes through appends one row to the recordings, with
  the key the store gave it and these points as \<open>points_earned\<close>.
\<close>

theorem totalPoints_formula:
  "totalPoints t = 10 + min (\<lceil>t / 60\<rceil> * 2) 20
   \<and> totalPoints 0 = 10 \<and> totalPoints 30 = 12 \<and> totalPoints 60 = 12 \<and> totalPoints 600 = 30
   \<and> (validateAndSave e (r, s, ev) = (None, r', s', ev') \<and> trim (r_title r) \<noteq> []
          \<and> r_uri r = Some uri \<and> uri \<noteq> []
        \<longrightarrow> (\<exists>saved. audio_records s' = audio_records s @ [saved]
                     \<and> ar_id saved = new_record_id e
                     \<and> ar_points_earned saved = 10 + min (\<lceil>r_duration r / 60\<rceil> * 2) 20))"
proof -
  have f: "totalPoints t = 10 + min (\<lceil>t / 60\<rceil> * 2) 20" for t
    by (simp add: totalPoints_def durationBonus_def durationMinutes_def basePoints_def)
  have v: "totalPoints 0 = 10 \<and> totalPoints 30 = 12 \<and> totalPoints 60 = 12 \<and> totalPoints 600 = 30"
    by (simp add: f ceiling_half)
  have sv: "\<exists>saved. audio_records s' = audio_records s @ [saved]
                     \<and> ar_id saved = new_record_id e
                     \<and> ar_points_earned saved = 10 + min (\<lceil>r_duration r / 60\<rceil> * 2) 20"
    if ok: "validateAndSave e (r, s, ev) = (None, r', s', ev')"
      and title: "trim (r_title r) \<noteq> []" and u: "r_uri r = Some u" and ne: "u \<noteq> []" for u
  proof -
    obtain x r2 s2 ev2 where t: "save_try e (r\<lparr>r_titleError := [], r_isSaving := True\<rparr>) u s ev = (x, r2, s2, ev2)"
      by (metis prod_cases4)
    from ok title u ne t have "x = None" and "s2 = s'"
      by (auto simp add: validateAndSave_def split: option.splits)
    with t have "save_try e (r\<lparr>r_titleError := [], r_isSaving := True\<rparr>) u s ev = (None, r2, s', ev2)"
      by simp
    from save_try_success [OF this] show ?thesis
      by (auto simp add: f)
  qed
  show ?thesis using f [of t] v sv by blast
qed

theorem totalPoints_formula_witness:
  "fst (validateAndSave demo_env (demo_recorder, demo_db, [])) = None
   \<and> map ar_points_earned
        (audio_records (fst (snd (snd (validateAndSave demo_env (demo_recorder, demo_db, []))))))
       = [14]"
proof -
  have ok: "fst (validateAndSave demo_env (demo_recorder, demo_db, [])) = None"
    by code_simp
  obtain r' s' ev' where v: "validateAndSave demo_env (demo_recorder, demo_db, []) = (None, r', s', ev')"
    using ok by (cases "validateAndSave demo_env (demo_recorder, demo_db, [])") auto
  have title: "trim (r_title demo_recorder) \<noteq> []"
    by (simp add: demo_recorder_def trim_def is_space_def)
  have uri: "r_uri demo_recorder = Some ''file:///rec.m4a''" "''file:///rec.m4a'' \<noteq> []"
    by (simp_all add: demo_recorder_def)
  have d: "r_duration demo_recorder = 90" "audio_records demo_db = []"
    by (simp_all add: demo_recorder_def demo_db_def)
  from totalPoints_formula [of 0 demo_env demo_recorder demo_db "[]" r' s' ev' "''file:///rec.m4a''"]
    v title uri
  show ?thesis
    by (auto simp add: d ceiling_three_halves)
qed

text \<open>
  C8.  An empty (or blank) title is rejected with the message \<open>Title is required\<close> and
  nothing else happens.  A captured file of zero bytes also stops the save before the
  upload, the insert and the gamification calls: store and events are as before.  But its
  error (\<open>Recording file is empty. Please record again.\<close>) is thrown inside the \<open>try\<close>
  block, whose handler is the one written for failures after the save: no message reaches
  the user and the promise is rejected by the handler's own \<open>ReferenceError\<close>.
\<close>

theorem validateAndSave_rejects_invalid:
  "(trim (r_title r) = [] \<longrightarrow>
      validateAndSave e (r, s, ev) = (None, r\<lparr>r_titleError := ''Title is required''\<rparr>, s, ev))
   \<and> (trim (r_title r) \<noteq> [] \<and> r_uri r = Some uri \<and> uri \<noteq> [] \<and> file_ok e
        \<and> blob_size e = 0 \<longrightarrow>
      validateAndSave e (r, s, ev) =
        (Some ReferenceError, r\<lparr>r_titleError := [], r_isSaving := False\<rparr>, s, ev))"
  by (simp add: validateAndSave_def save_try_def)

theorem validateAndSave_rejects_invalid_witness:
  "validateAndSave (demo_env\<lparr>blob_size := 0\<rparr>) (demo_recorder, demo_db, []) =
     (Some ReferenceError, demo_recorder, demo_db, [])
   \<and> validateAndSave demo_env (demo_recorder\<lparr>r_title := ''  ''\<rparr>, demo_db, []) =
     (None, demo_recorder\<lparr>r_title := ''  '', r_titleError := ''Title is required''\<rparr>, demo_db, [])"
proof -
  have a: "trim (r_title demo_recorder) \<noteq> []" "r_uri demo_recorder = Some ''file:///rec.m4a''"
    "trim (r_title (demo_recorder\<lparr>r_title := ''  ''\<rparr>)) = []"
    by (simp_all add: demo_recorder_def trim_def is_space_def)
  have b: "file_ok (demo_env\<lparr>blob_size := 0\<rparr>)" "blob_size (demo_env\<lparr>blob_size := 0\<rparr>) = 0"
    by (simp_all add: demo_env_def)
  have c: "demo_recorder\<lparr>r_titleError := [], r_isSaving := False\<rparr> = demo_recorder"
    by (simp add: demo_recorder_def)
  note t1 = validateAndSave_rejects_invalid [where r = demo_recorder and e = "demo_env\<lparr>blob_size := 0\<rparr>"
      and uri = "''file:///rec.m4a''" and s = demo_db and ev = "[]"]
  note t2 = validateAndSave_rejects_invalid [where r = "demo_recorder\<lparr>r_title := ''  ''\<rparr>"
      and e = demo_env and uri = "''file:///rec.m4a''" and s = demo_db and ev = "[]"]
  from t1 t2 a b show ?thesis
    by (simp add: c)
qed


section \<open>Achievements\<close>

lemma demo_env_simps:
  "auth_user demo_env = Some ''u1''" "\<not> create_profile_fails demo_env"
  "\<not> achievements_query_fails demo_env" "week_start demo_env = 0"
  by (simp_all add: demo_env_def)

text \<open>
  C4.  The evaluator is meant to scan only the achievements the user has not earned, which
  is what would make a second run award nothing and keep one row per (user, achievement)
  pair.  The filter it sends does not do that: the rows of \<open>user_achievements\<close> have no
  influence on the achievements the query returns.  For the user of \<open>ach_db\<close> the first
  run awards the achievement for 200 points and the second run, with nothing changed in
  between, awards it again and inserts a second row for the same pair.  Where the reward
  reaches the profile (\<open>ach_db_same_id\<close>) the second run awards that achievement again,
  pays its reward a second time and awards the achievement for 300 points as well.
\<close>

theorem checkAndAward_twice_awards_again:
  "availableAchievements uid (s\<lparr>user_achievements := rows\<rparr>) = availableAchievements uid s
   \<and> fst (checkAndAwardAchievements demo_env ach_db) = Inr [ach_points]
   \<and> fst (checkAndAwardAchievements demo_env
             (snd (checkAndAwardAchievements demo_env ach_db))) = Inr [ach_points]
   \<and> user_achievements (snd (checkAndAwardAchievements demo_env
             (snd (checkAndAwardAchievements demo_env ach_db)))) =
       [\<lparr>ua_user_id = ''u1'', ua_achievement_id = ''a1''\<rparr>,
        \<lparr>ua_user_id = ''u1'', ua_achievement_id = ''a1''\<rparr>]
   \<and> fst (checkAndAwardAchievements demo_env ach_db_same_id) = Inr [ach_points]
   \<and> fst (checkAndAwardAchievements demo_env
             (snd (checkAndAwardAchievements demo_env ach_db_same_id)))
       = Inr [ach_points, ach_more_points]
   \<and> map p_points (profiles (snd (checkAndAwardAchievements demo_env
             (snd (checkAndAwardAchievements demo_env ach_db_same_id))))) = [Some 450]"
  by (simp add: checkAndAwardAchievements_def getStudentProgress_def progress_of_def
      availableAchievements_def subquery_text_def award_achievement_def earned_def Let_def
      demo_env_simps ach_db_same_id_def ach_db_def demo_db_def demo_profile_def ach_points_def
      ach_more_points_def)

text \<open>
  C6.  The evaluator inserts the row and then adds the reward to the profile rows whose
  \<open>id\<close> column equals the user's id, whereas the profile is kept under \<open>user_id\<close>
  everywhere else.  For the user of \<open>ach_db\<close>, whose profile row has a key of its own, the
  achievement for 200 points (reward: 100 points and 2 diamonds) is awarded and the row
  inserted, but the profile still has its 250 points and 3 diamonds.
\<close>

theorem checkAndAward_reward_by_id:
  "checkAndAwardAchievements demo_env ach_db =
     (Inr [ach_points], ach_db\<lparr>user_achievements := [\<lparr>ua_user_id = ''u1'', ua_achievement_id = ''a1''\<rparr>]\<rparr>)
   \<and> profiles (snd (checkAndAwardAchievements demo_env ach_db)) = [demo_profile]
   \<and> p_user_id demo_profile = ''u1'' \<and> p_id demo_profile = ''p1''
   \<and> p_points demo_profile = Some 250 \<and> p_diamonds demo_profile = Some 3
   \<and> a_points_reward ach_points = 100 \<and> a_diamonds_reward ach_points = 2"
  by (simp add: checkAndAwardAchievements_def getStudentProgress_def progress_of_def
      availableAchievements_def subquery_text_def award_achievement_def earned_def Let_def
      demo_env_simps ach_db_def demo_db_def demo_profile_def ach_points_def ach_more_points_def)

end
